theory Spec2Isabelle
  imports Main
begin

section \<open>The host and the external collaborators\<close>

text \<open>
  The preflight checks of \<^verbatim>\<open>pkg/crc/preflight/preflight_checks_network_linux.go\<close> read and
  change the host through a handful of collaborators: the privileged file primitives of
  \<^verbatim>\<open>crcos\<close>, the systemd commander, \<^verbatim>\<open>exec.LookPath\<close> and \<^verbatim>\<open>os.Stat\<close>. The host is a
  record that is passed in and returned; a Go \<^verbatim>\<open>error\<close> is a \<open>string option\<close> holding the
  message, \<open>None\<close> being \<^verbatim>\<open>nil\<close>. The \<^verbatim>\<open>logging\<close> calls have no effect on any result and are
  left out.
\<close>

text \<open>
  Modelled from the spec: the \<^verbatim>\<open>states\<close> package is not part of the sources at hand. The
  code compares a status with \<^verbatim>\<open>states.Running\<close> only, so every other state is carried by
  its name.
\<close>

datatype State = Running | OtherState string

text \<open>
  The privileged calls that change the host. Every one that is issued is appended to the
  \<open>calls\<close> of the host, whether it succeeds or not.
\<close>

datatype call =
    WriteFile string string nat
  | RemoveFile string
  | ReloadUnit string

text \<open>
  \<^item> \<open>files\<close>: the file system, from a path to the content and permission bits of the file;
  \<^item> \<open>stat_err\<close>: the paths on which \<^verbatim>\<open>os.Stat\<close> fails for a reason other than absence;
  \<^item> \<open>search_path\<close>: what \<^verbatim>\<open>exec.LookPath\<close> answers for an executable name;
  \<^item> \<open>unit_status\<close>: what the systemd commander answers to a status query;
  \<^item> \<open>calls\<close>: the privileged calls issued so far, oldest first;
  \<^item> \<open>fails\<close>: the error, if any, with which a privileged call ends, given the calls
    issued before it. It stands for everything that decides whether a primitive succeeds
    (privilege, the service manager, the disk).
\<close>

record host =
  files :: "string \<rightharpoonup> string \<times> nat"
  stat_err :: "string \<rightharpoonup> string"
  search_path :: "string \<Rightarrow> string + string"
  unit_status :: "string \<Rightarrow> string + State"
  calls :: "call list"
  fails :: "call list \<Rightarrow> call \<Rightarrow> string option"

text \<open>
  Modelled from the spec: \<^verbatim>\<open>crcos.WriteToFileAsRoot(reason, content, filepath, perms)\<close> is
  not part of the sources at hand. On success it creates or overwrites the file with the
  given content and mode; a failed write is taken to leave the files as they were.
\<close>

definition WriteToFileAsRoot ::
  "string \<Rightarrow> string \<Rightarrow> string \<Rightarrow> nat \<Rightarrow> host \<Rightarrow> string option \<times> host" where
  "WriteToFileAsRoot reason content filepath perms h =
     (case fails h (calls h) (WriteFile filepath content perms) of
        Some err \<Rightarrow> (Some err, h\<lparr>calls := calls h @ [WriteFile filepath content perms]\<rparr>)
      | None \<Rightarrow>
          (None, h\<lparr>files := (files h)(filepath \<mapsto> (content, perms)),
                   calls := calls h @ [WriteFile filepath content perms]\<rparr>))"

text \<open>
  Modelled from the spec: \<^verbatim>\<open>crcos.RemoveFileAsRoot(reason, filepath)\<close> is not part of the
  sources at hand. On success the file is gone, whether it was there or not; a failed
  removal is taken to leave the files as they were.
\<close>

definition RemoveFileAsRoot :: "string \<Rightarrow> string \<Rightarrow> host \<Rightarrow> string option \<times> host" where
  "RemoveFileAsRoot reason filepath h =
     (case fails h (calls h) (RemoveFile filepath) of
        Some err \<Rightarrow> (Some err, h\<lparr>calls := calls h @ [RemoveFile filepath]\<rparr>)
      | None \<Rightarrow>
          (None, h\<lparr>files := (files h)(filepath := None),
                   calls := calls h @ [RemoveFile filepath]\<rparr>))"

text \<open>
  Modelled from the spec: \<^verbatim>\<open>crcos.FileContentMatches(path, expected)\<close> is not part of the
  sources at hand. It only reads the host; its error tells an absent file from one whose
  content differs, and the mode of the file plays no part.
\<close>

definition FileContentMatches :: "string \<Rightarrow> string \<Rightarrow> host \<Rightarrow> string option" where
  "FileContentMatches path expected h =
     (case files h path of
        None \<Rightarrow> Some (''File not found: '' @ path)
      | Some (content, perms) \<Rightarrow>
          if content \<noteq> expected then Some (''File has unexpected content: '' @ path)
          else None)"

text \<open>
  Modelled from the spec: the systemd commander (\<^verbatim>\<open>systemd.NewHostSystemdCommander()\<close>) is
  not part of the sources at hand. \<open>Reload\<close> asks the service manager to reload a unit and
  touches no file; \<open>Status\<close> only reads the host.
\<close>

definition Reload :: "string \<Rightarrow> host \<Rightarrow> string option \<times> host" where
  "Reload name h =
     (fails h (calls h) (ReloadUnit name), h\<lparr>calls := calls h @ [ReloadUnit name]\<rparr>)"

definition Status :: "string \<Rightarrow> host \<Rightarrow> string + State" where
  "Status name h = unit_status h name"

text \<open>
  \<^verbatim>\<open>exec.LookPath\<close> and \<^verbatim>\<open>os.Stat\<close> belong to Go's standard library. \<open>exec_LookPath\<close> gives
  the resolved path or an error. \<open>os_Stat\<close> gives the error only, since the code drops the
  file information; \<open>os_IsNotExist\<close> is false on \<^verbatim>\<open>nil\<close> and on every error but absence.
\<close>

definition exec_LookPath :: "string \<Rightarrow> host \<Rightarrow> string + string" where
  "exec_LookPath file h = search_path h file"

datatype stat_error = ErrNotExist | ErrOther string

definition os_Stat :: "string \<Rightarrow> host \<Rightarrow> stat_error option" where
  "os_Stat name h =
     (case stat_err h name of
        Some err \<Rightarrow> Some (ErrOther err)
      | None \<Rightarrow> (case files h name of None \<Rightarrow> Some ErrNotExist | Some f \<Rightarrow> None))"

fun os_IsNotExist :: "stat_error option \<Rightarrow> bool" where
  "os_IsNotExist (Some ErrNotExist) = True"
| "os_IsNotExist (Some (ErrOther err)) = False"
| "os_IsNotExist None = False"

section \<open>The Check type\<close>

text \<open>
  Modelled from the spec: the \<^verbatim>\<open>Check\<close> struct and its \<^verbatim>\<open>Flags\<close> are declared outside the
  sources at hand. The fields are the ones the registries fill in. A function field left
  out of a Go struct literal is \<^verbatim>\<open>nil\<close> (\<open>None\<close>), a string left out is empty and flags left
  out are the empty set. Detection takes the host and gives an error or \<^verbatim>\<open>nil\<close>;
  remediation and cleanup also give the host back.
\<close>

datatype Flag = NoFix | OtherFlag nat

record Check =
  configKeySuffix :: string
  checkDescription :: string
  check :: "host \<Rightarrow> string option"
  fixDescription :: string
  "fix" :: "(host \<Rightarrow> string option \<times> host) option"
  flags :: "Flag set"
  cleanupDescription :: string
  cleanup :: "(host \<Rightarrow> string option \<times> host) option"

section \<open>Paths and contents\<close>

text \<open>
  \<^verbatim>\<open>filepath.Join\<close> of the separator, \<^verbatim>\<open>etc\<close> and \<^verbatim>\<open>NetworkManager\<close> is
  \<^verbatim>\<open>/etc/NetworkManager\<close> on Linux; the other paths join further elements with the separator.
\<close>

definition crcNetworkManagerRootPath :: string where
  "crcNetworkManagerRootPath = ''/etc/NetworkManager''"

definition crcDnsmasqConfigPath :: string where
  "crcDnsmasqConfigPath = crcNetworkManagerRootPath @ ''/dnsmasq.d/crc.conf''"

definition crcDnsmasqConfig :: string where
  "crcDnsmasqConfig =
     ''server=/apps-crc.testing/192.168.130.11\<newline>'' @
     ''server=/crc.testing/192.168.130.11\<newline>''"

definition crcNetworkManagerConfigPath :: string where
  "crcNetworkManagerConfigPath = crcNetworkManagerRootPath @ ''/conf.d/crc-nm-dnsmasq.conf''"

definition crcNetworkManagerConfig :: string where
  "crcNetworkManagerConfig = ''[main]\<newline>'' @ ''dns=dnsmasq\<newline>''"

definition crcNetworkManagerDispatcherPath :: string where
  "crcNetworkManagerDispatcherPath =
     crcNetworkManagerRootPath @ ''/dispatcher.d/pre-up.d/99-crc.sh''"

definition crcNetworkManagerDispatcherConfig :: string where
  "crcNetworkManagerDispatcherConfig =
     ''#!/bin/sh\<newline>'' @
     ''# This is a NetworkManager dispatcher script to configure split DNS for\<newline>'' @
     ''# the 'crc' libvirt network.\<newline>'' @
     ''# The corresponding crc bridge is recreated each time the system reboots, so\<newline>'' @
     ''# it cannot be configured permanently through NetworkManager.\<newline>'' @
     ''# Changing DNS settings with nmcli requires the connection to go down/up,\<newline>'' @
     ''# so we directly make the change using resolvectl\<newline>'' @
     ''\<newline>'' @
     ''export LC_ALL=C\<newline>'' @
     ''\<newline>'' @
     ''if [ \"$1\" = crc ]; then\<newline>'' @
     ''        resolvectl domain \"$1\" ~testing\<newline>'' @
     ''        resolvectl dns \"$1\" 192.168.130.11\<newline>'' @
     ''        resolvectl default-route \"$1\" false\<newline>'' @
     ''fi\<newline>'' @
     ''\<newline>'' @
     ''exit 0\<newline>''"

section \<open>The operations\<close>

definition fixNetworkManagerConfigFile ::
  "string \<Rightarrow> string \<Rightarrow> nat \<Rightarrow> host \<Rightarrow> string option \<times> host" where
  "fixNetworkManagerConfigFile path content perms h =
     (case WriteToFileAsRoot (''write NetworkManager configuration to '' @ path)
             content path perms h of
        (Some err, h1) \<Rightarrow>
          (Some (''Failed to write config file: '' @ path @ '': '' @ err), h1)
      | (None, h1) \<Rightarrow>
          (case Reload ''NetworkManager'' h1 of
             (Some err, h2) \<Rightarrow> (Some (''Failed to restart NetworkManager: '' @ err), h2)
           | (None, h2) \<Rightarrow> (None, h2)))"

definition checkNetworkManagerInstalled :: "host \<Rightarrow> string option" where
  "checkNetworkManagerInstalled h =
     (case exec_LookPath ''nmcli'' h of
        Inl err \<Rightarrow> Some ''NetworkManager cli nmcli was not found in path''
      | Inr path \<Rightarrow> None)"

definition removeNetworkManagerConfigFile :: "string \<Rightarrow> host \<Rightarrow> string option \<times> host" where
  "removeNetworkManagerConfigFile path h =
     (case checkNetworkManagerInstalled h of
        Some err \<Rightarrow> (None, h)
      | None \<Rightarrow>
          if \<not> os_IsNotExist (os_Stat path h) then
            (case RemoveFileAsRoot (''removing NetworkManager configuration file in '' @ path)
                    path h of
               (Some err, h1) \<Rightarrow>
                 (Some (''Failed to remove NetworkManager configuration file: '' @ path @
                        '': '' @ err), h1)
             | (None, h1) \<Rightarrow>
                 (case Reload ''NetworkManager'' h1 of
                    (Some err, h2) \<Rightarrow>
                      (Some (''Failed to restart NetworkManager: '' @ err), h2)
                  | (None, h2) \<Rightarrow> (None, h2)))
          else (None, h))"

definition checkCrcDnsmasqConfigFile :: "host \<Rightarrow> string option" where
  "checkCrcDnsmasqConfigFile h =
     (case FileContentMatches crcDnsmasqConfigPath crcDnsmasqConfig h of
        Some err \<Rightarrow> Some err
      | None \<Rightarrow> None)"

definition fixCrcDnsmasqConfigFile :: "host \<Rightarrow> string option \<times> host" where
  "fixCrcDnsmasqConfigFile h =
     (case fixNetworkManagerConfigFile crcDnsmasqConfigPath crcDnsmasqConfig 420 h of
        (Some err, h1) \<Rightarrow> (Some err, h1)
      | (None, h1) \<Rightarrow> (None, h1))"

definition removeCrcDnsmasqConfigFile :: "host \<Rightarrow> string option \<times> host" where
  "removeCrcDnsmasqConfigFile h = removeNetworkManagerConfigFile crcDnsmasqConfigPath h"

definition checkCrcNetworkManagerConfig :: "host \<Rightarrow> string option" where
  "checkCrcNetworkManagerConfig h =
     (case FileContentMatches crcNetworkManagerConfigPath crcNetworkManagerConfig h of
        Some err \<Rightarrow> Some err
      | None \<Rightarrow> None)"

definition fixCrcNetworkManagerConfig :: "host \<Rightarrow> string option \<times> host" where
  "fixCrcNetworkManagerConfig h =
     (case fixNetworkManagerConfigFile crcNetworkManagerConfigPath crcNetworkManagerConfig
             420 h of
        (Some err, h1) \<Rightarrow> (Some err, h1)
      | (None, h1) \<Rightarrow> (None, h1))"

definition removeCrcNetworkManagerConfig :: "host \<Rightarrow> string option \<times> host" where
  "removeCrcNetworkManagerConfig h =
     removeNetworkManagerConfigFile crcNetworkManagerConfigPath h"

definition checkSystemdServiceRunning :: "string \<Rightarrow> host \<Rightarrow> string option" where
  "checkSystemdServiceRunning service h =
     (case Status service h of
        Inl err \<Rightarrow> Some err
      | Inr status \<Rightarrow>
          if status \<noteq> Running then Some (service @ '' is not running'') else None)"

definition checkSystemdNetworkdIsNotRunning :: "host \<Rightarrow> string option" where
  "checkSystemdNetworkdIsNotRunning h =
     (if checkSystemdServiceRunning ''systemd-networkd.service'' h = None
      then Some ''systemd-networkd.service is running''
      else None)"

definition checkNetworkManagerIsRunning :: "host \<Rightarrow> string option" where
  "checkNetworkManagerIsRunning h = checkSystemdServiceRunning ''NetworkManager.service'' h"

definition checkSystemdResolvedIsRunning :: "host \<Rightarrow> string option" where
  "checkSystemdResolvedIsRunning h =
     checkSystemdServiceRunning ''systemd-resolved.service'' h"

definition checkCrcNetworkManagerDispatcherFile :: "host \<Rightarrow> string option" where
  "checkCrcNetworkManagerDispatcherFile h =
     (case FileContentMatches crcNetworkManagerDispatcherPath
             crcNetworkManagerDispatcherConfig h of
        Some err \<Rightarrow> Some err
      | None \<Rightarrow> None)"

definition fixCrcNetworkManagerDispatcherFile :: "host \<Rightarrow> string option \<times> host" where
  "fixCrcNetworkManagerDispatcherFile h =
     (case fixNetworkManagerConfigFile crcNetworkManagerDispatcherPath
             crcNetworkManagerDispatcherConfig 493 h of
        (Some err, h1) \<Rightarrow> (Some err, h1)
      | (None, h1) \<Rightarrow> (None, h1))"

definition removeCrcNetworkManagerDispatcherFile :: "host \<Rightarrow> string option \<times> host" where
  "removeCrcNetworkManagerDispatcherFile h =
     removeNetworkManagerConfigFile crcNetworkManagerDispatcherPath h"

section \<open>The registries\<close>

definition nmPreflightChecks :: "Check list" where
  "nmPreflightChecks =
     [\<lparr>configKeySuffix = ''check-systemd-networkd-running'',
       checkDescription = ''Checking if systemd-networkd is running'',
       check = checkSystemdNetworkdIsNotRunning,
       fixDescription = ''network configuration with systemd-networkd is not supported'',
       fix = None,
       flags = {NoFix},
       cleanupDescription = '''',
       cleanup = None\<rparr>,
      \<lparr>configKeySuffix = ''check-network-manager-installed'',
       checkDescription = ''Checking if NetworkManager is installed'',
       check = checkNetworkManagerInstalled,
       fixDescription = ''NetworkManager is required and must be installed manually'',
       fix = None,
       flags = {NoFix},
       cleanupDescription = '''',
       cleanup = None\<rparr>,
      \<lparr>configKeySuffix = ''check-network-manager-running'',
       checkDescription = ''Checking if NetworkManager service is running'',
       check = checkNetworkManagerIsRunning,
       fixDescription =
         ''NetworkManager is required. Please make sure it is installed and running manually'',
       fix = None,
       flags = {NoFix},
       cleanupDescription = '''',
       cleanup = None\<rparr>]"

definition dnsmasqPreflightChecks :: "Check list" where
  "dnsmasqPreflightChecks =
     [\<lparr>configKeySuffix = ''check-network-manager-config'',
       checkDescription =
         ''Checking if /etc/NetworkManager/conf.d/crc-nm-dnsmasq.conf exists'',
       check = checkCrcNetworkManagerConfig,
       fixDescription = ''Writing Network Manager config for crc'',
       fix = Some fixCrcNetworkManagerConfig,
       flags = {},
       cleanupDescription = ''Removing /etc/NetworkManager/conf.d/crc-nm-dnsmasq.conf file'',
       cleanup = Some removeCrcNetworkManagerConfig\<rparr>,
      \<lparr>configKeySuffix = ''check-crc-dnsmasq-file'',
       checkDescription = ''Checking if /etc/NetworkManager/dnsmasq.d/crc.conf exists'',
       check = checkCrcDnsmasqConfigFile,
       fixDescription = ''Writing dnsmasq config for crc'',
       fix = Some fixCrcDnsmasqConfigFile,
       flags = {},
       cleanupDescription = ''Removing /etc/NetworkManager/dnsmasq.d/crc.conf file'',
       cleanup = Some removeCrcDnsmasqConfigFile\<rparr>]"

definition systemdResolvedPreflightChecks :: "Check list" where
  "systemdResolvedPreflightChecks =
     [\<lparr>configKeySuffix = ''check-systemd-resolved-running'',
       checkDescription = ''Checking if the systemd-resolved service is running'',
       check = checkSystemdResolvedIsRunning,
       fixDescription =
         ''systemd-resolved is required on this distribution. '' @
         ''Please make sure it is installed and running manually'',
       fix = None,
       flags = {NoFix},
       cleanupDescription = '''',
       cleanup = None\<rparr>,
      \<lparr>configKeySuffix = ''check-crc-nm-dispatcher-file'',
       checkDescription = ''Checking if '' @ crcNetworkManagerDispatcherPath @ '' exists'',
       check = checkCrcNetworkManagerDispatcherFile,
       fixDescription = ''Writing NetworkManager dispatcher file for crc'',
       fix = Some fixCrcNetworkManagerDispatcherFile,
       flags = {},
       cleanupDescription = ''Removing '' @ crcNetworkManagerDispatcherPath @ '' file'',
       cleanup = Some removeCrcNetworkManagerDispatcherFile\<rparr>]"

text \<open>
  The configuration-file checks of the registries, each with the path, the content and the
  mode that its three functions hand to the helpers (\<^verbatim>\<open>0644\<close> is 420 and \<^verbatim>\<open>0755\<close> is 493).
\<close>

definition configFileChecks :: "(Check \<times> string \<times> string \<times> nat) list" where
  "configFileChecks =
     [(dnsmasqPreflightChecks ! 0,
         crcNetworkManagerConfigPath, crcNetworkManagerConfig, 420),
      (dnsmasqPreflightChecks ! 1,
         crcDnsmasqConfigPath, crcDnsmasqConfig, 420),
      (systemdResolvedPreflightChecks ! 1,
         crcNetworkManagerDispatcherPath, crcNetworkManagerDispatcherConfig, 493)]"

section \<open>Sample hosts\<close>

text \<open>
  A host on which nothing has been written yet: NetworkManager is installed and running,
  systemd-networkd is not, and no privileged call fails.
\<close>

definition freshHost :: host where
  "freshHost =
     \<lparr>files = Map.empty,
      stat_err = Map.empty,
      search_path = (\<lambda>file. if file = ''nmcli'' then Inr ''/usr/bin/nmcli''
                             else Inl ''executable file not found in $PATH''),
      unit_status = (\<lambda>name. if name = ''systemd-networkd.service''
                             then Inr (OtherState ''stopped'') else Inr Running),
      calls = [],
      fails = (\<lambda>before c. None)\<rparr>"

text \<open>
  The fresh host after the dnsmasq configuration has been written, after the reload that
  follows, after a second write and reload, and after the cleanup of the first fix.
\<close>

definition dnsmasqWrittenHost :: host where
  "dnsmasqWrittenHost =
     freshHost\<lparr>files := [crcDnsmasqConfigPath \<mapsto> (crcDnsmasqConfig, 420)],
               calls := [WriteFile crcDnsmasqConfigPath crcDnsmasqConfig 420]\<rparr>"

definition dnsmasqFixedHost :: host where
  "dnsmasqFixedHost =
     dnsmasqWrittenHost\<lparr>calls := [WriteFile crcDnsmasqConfigPath crcDnsmasqConfig 420,
                                   ReloadUnit ''NetworkManager'']\<rparr>"

definition dnsmasqWrittenAgainHost :: host where
  "dnsmasqWrittenAgainHost =
     dnsmasqFixedHost\<lparr>calls := [WriteFile crcDnsmasqConfigPath crcDnsmasqConfig 420,
                                 ReloadUnit ''NetworkManager'',
                                 WriteFile crcDnsmasqConfigPath crcDnsmasqConfig 420]\<rparr>"

definition dnsmasqFixedAgainHost :: host where
  "dnsmasqFixedAgainHost =
     dnsmasqFixedHost\<lparr>calls := [WriteFile crcDnsmasqConfigPath crcDnsmasqConfig 420,
                                 ReloadUnit ''NetworkManager'',
                                 WriteFile crcDnsmasqConfigPath crcDnsmasqConfig 420,
                                 ReloadUnit ''NetworkManager'']\<rparr>"

definition dnsmasqCleanedHost :: host where
  "dnsmasqCleanedHost =
     freshHost\<lparr>calls := [WriteFile crcDnsmasqConfigPath crcDnsmasqConfig 420,
                          ReloadUnit ''NetworkManager'',
                          RemoveFile crcDnsmasqConfigPath,
                          ReloadUnit ''NetworkManager'']\<rparr>"

text \<open>A host on which one given privileged call fails with a given message.\<close>

definition failingOn :: "call \<Rightarrow> string \<Rightarrow> host \<Rightarrow> host" where
  "failingOn c0 msg h = h\<lparr>fails := (\<lambda>before c. if c = c0 then Some msg else None)\<rparr>"

text \<open>
  The fresh host with a service manager that refuses to reload NetworkManager, before the
  write of the dnsmasq configuration, after it, and after the failed reload.
\<close>

definition reloadFailsHost :: host where
  "reloadFailsHost =
     failingOn (ReloadUnit ''NetworkManager'') ''Job for NetworkManager.service failed''
       freshHost"

definition reloadFailsWrittenHost :: host where
  "reloadFailsWrittenHost =
     reloadFailsHost\<lparr>files := [crcDnsmasqConfigPath \<mapsto> (crcDnsmasqConfig, 420)],
                     calls := [WriteFile crcDnsmasqConfigPath crcDnsmasqConfig 420]\<rparr>"

definition reloadFailsReloadedHost :: host where
  "reloadFailsReloadedHost =
     reloadFailsWrittenHost\<lparr>calls := [WriteFile crcDnsmasqConfigPath crcDnsmasqConfig 420,
                                       ReloadUnit ''NetworkManager'']\<rparr>"

text \<open>The fresh host without \<^verbatim>\<open>nmcli\<close> on the search path.\<close>

definition noNmcliHost :: host where
  "noNmcliHost =
     freshHost\<lparr>search_path := (\<lambda>file. Inl ''executable file not found in $PATH'')\<rparr>"


text \<open>The fresh host with a service manager that cannot answer a status query.\<close>

definition statusErrorHost :: host where
  "statusErrorHost =
     freshHost\<lparr>unit_status := (\<lambda>name. Inl ''Executing systemctl action failed'')\<rparr>"

section \<open>Facts about the helpers\<close>

lemma fix_wrappers:
  "fixCrcDnsmasqConfigFile = fixNetworkManagerConfigFile crcDnsmasqConfigPath crcDnsmasqConfig 420"
  "fixCrcNetworkManagerConfig =
     fixNetworkManagerConfigFile crcNetworkManagerConfigPath crcNetworkManagerConfig 420"
  "fixCrcNetworkManagerDispatcherFile =
     fixNetworkManagerConfigFile crcNetworkManagerDispatcherPath
       crcNetworkManagerDispatcherConfig 493"
  by (auto simp: fun_eq_iff fixCrcDnsmasqConfigFile_def fixCrcNetworkManagerConfig_def
      fixCrcNetworkManagerDispatcherFile_def split: prod.splits option.splits)

lemma check_wrappers:
  "checkCrcDnsmasqConfigFile = FileContentMatches crcDnsmasqConfigPath crcDnsmasqConfig"
  "checkCrcNetworkManagerConfig =
     FileContentMatches crcNetworkManagerConfigPath crcNetworkManagerConfig"
  "checkCrcNetworkManagerDispatcherFile =
     FileContentMatches crcNetworkManagerDispatcherPath crcNetworkManagerDispatcherConfig"
  by (auto simp: fun_eq_iff checkCrcDnsmasqConfigFile_def checkCrcNetworkManagerConfig_def
      checkCrcNetworkManagerDispatcherFile_def split: option.splits)

lemma remove_wrappers:
  "removeCrcDnsmasqConfigFile = removeNetworkManagerConfigFile crcDnsmasqConfigPath"
  "removeCrcNetworkManagerConfig = removeNetworkManagerConfigFile crcNetworkManagerConfigPath"
  "removeCrcNetworkManagerDispatcherFile =
     removeNetworkManagerConfigFile crcNetworkManagerDispatcherPath"
  by (simp_all add: fun_eq_iff removeCrcDnsmasqConfigFile_def removeCrcNetworkManagerConfig_def
      removeCrcNetworkManagerDispatcherFile_def)

lemma configFileChecks_ops:
  assumes "(c, path, content, perms) \<in> set configFileChecks"
  shows "check c = FileContentMatches path content"
    and "fix c = Some (fixNetworkManagerConfigFile path content perms)"
    and "cleanup c = Some (removeNetworkManagerConfigFile path)"
  using assms
  by (auto simp: configFileChecks_def dnsmasqPreflightChecks_def
      systemdResolvedPreflightChecks_def fix_wrappers check_wrappers remove_wrappers)

lemma fixable_checks:
  "filter (\<lambda>c. fix c \<noteq> None)
     (nmPreflightChecks @ dnsmasqPreflightChecks @ systemdResolvedPreflightChecks) =
   map fst configFileChecks"
  by (simp add: configFileChecks_def nmPreflightChecks_def dnsmasqPreflightChecks_def
      systemdResolvedPreflightChecks_def)

lemma Write_ok:
  assumes "WriteToFileAsRoot reason content path perms h = (None, h1)"
  shows "files h1 = (files h)(path \<mapsto> (content, perms))"
    and "calls h1 = calls h @ [WriteFile path content perms]"
    and "fails h1 = fails h" and "search_path h1 = search_path h"
    and "stat_err h1 = stat_err h" and "unit_status h1 = unit_status h"
  using assms by (auto simp: WriteToFileAsRoot_def split: option.splits)

lemma Reload_result:
  assumes "Reload name h = (r, h1)"
  shows "files h1 = files h"
    and "calls h1 = calls h @ [ReloadUnit name]"
    and "fails h1 = fails h" and "search_path h1 = search_path h"
    and "stat_err h1 = stat_err h" and "unit_status h1 = unit_status h"
  using assms by (auto simp: Reload_def)

lemma fix_ok:
  assumes "WriteToFileAsRoot (''write NetworkManager configuration to '' @ path)
             content path perms h = (None, h1)"
    and "Reload ''NetworkManager'' h1 = (None, h2)"
  shows "fixNetworkManagerConfigFile path content perms h = (None, h2)"
  using assms by (simp add: fixNetworkManagerConfigFile_def)

lemma fix_reload_failed:
  assumes "WriteToFileAsRoot (''write NetworkManager configuration to '' @ path)
             content path perms h = (None, h1)"
    and "Reload ''NetworkManager'' h1 = (Some err, h2)"
  shows "fixNetworkManagerConfigFile path content perms h =
           (Some (''Failed to restart NetworkManager: '' @ err), h2)"
  using assms by (simp add: fixNetworkManagerConfigFile_def)

lemma fix_write_failed:
  assumes "WriteToFileAsRoot (''write NetworkManager configuration to '' @ path)
             content path perms h = (Some err, h1)"
  shows "fixNetworkManagerConfigFile path content perms h =
           (Some (''Failed to write config file: '' @ path @ '': '' @ err), h1)"
  using assms by (simp add: fixNetworkManagerConfigFile_def)

lemma fix_ok_cases:
  assumes "fixNetworkManagerConfigFile path content perms h = (None, h2)"
  obtains h1 where
    "WriteToFileAsRoot (''write NetworkManager configuration to '' @ path)
       content path perms h = (None, h1)"
    "Reload ''NetworkManager'' h1 = (None, h2)"
  using assms
  by (auto simp: fixNetworkManagerConfigFile_def split: prod.splits option.splits)

lemma content_after_fix:
  assumes "WriteToFileAsRoot reason content path perms h = (None, h1)"
    and "Reload name h1 = (r, h2)"
  shows "files h2 path = Some (content, perms)"
    and "FileContentMatches path content h2 = None"
  using Write_ok(1)[OF assms(1)] Reload_result(1)[OF assms(2)]
  by (simp_all add: FileContentMatches_def)


lemma Remove_ok:
  assumes "RemoveFileAsRoot reason path h = (None, h1)"
  shows "files h1 = (files h)(path := None)"
    and "calls h1 = calls h @ [RemoveFile path]"
    and "fails h1 = fails h" and "search_path h1 = search_path h"
    and "stat_err h1 = stat_err h" and "unit_status h1 = unit_status h"
  using assms by (auto simp: RemoveFileAsRoot_def split: option.splits)

lemma remove_not_installed:
  assumes "exec_LookPath ''nmcli'' h = Inl err"
  shows "removeNetworkManagerConfigFile path h = (None, h)"
  using assms by (simp add: removeNetworkManagerConfigFile_def checkNetworkManagerInstalled_def)


lemma remove_present:
  assumes "exec_LookPath ''nmcli'' h = Inr p" and "\<not> os_IsNotExist (os_Stat path h)"
  shows "removeNetworkManagerConfigFile path h =
     (case RemoveFileAsRoot (''removing NetworkManager configuration file in '' @ path) path h of
        (Some err, h1) \<Rightarrow>
          (Some (''Failed to remove NetworkManager configuration file: '' @ path @
                 '': '' @ err), h1)
      | (None, h1) \<Rightarrow>
          (case Reload ''NetworkManager'' h1 of
             (Some err, h2) \<Rightarrow> (Some (''Failed to restart NetworkManager: '' @ err), h2)
           | (None, h2) \<Rightarrow> (None, h2)))"
  using assms by (simp add: removeNetworkManagerConfigFile_def checkNetworkManagerInstalled_def)

lemma present_not_absent:
  assumes "files h path = Some f"
  shows "\<not> os_IsNotExist (os_Stat path h)"
  using assms by (simp add: os_Stat_def split: option.splits)

lemma absent_iff:
  "(os_Stat path h = Some ErrNotExist) = (files h path = None \<and> stat_err h path = None)"
  by (auto simp: os_Stat_def split: option.splits)


lemma service_running_iff:
  "(checkSystemdServiceRunning service h = None) = (Status service h = Inr Running)"
  by (simp add: checkSystemdServiceRunning_def split: sum.splits)

subsection \<open>The sample hosts\<close>

lemma sample_mem:
  "(dnsmasqPreflightChecks ! 1, crcDnsmasqConfigPath, crcDnsmasqConfig, 420)
     \<in> set configFileChecks"
  by (simp add: configFileChecks_def)

lemma sample_ops:
  "fix (dnsmasqPreflightChecks ! 1) = Some fixCrcDnsmasqConfigFile"
  "cleanup (dnsmasqPreflightChecks ! 1) = Some removeCrcDnsmasqConfigFile"
  "check (dnsmasqPreflightChecks ! 1) = checkCrcDnsmasqConfigFile"
  by (simp_all add: dnsmasqPreflightChecks_def)

lemma sample_write:
  "WriteToFileAsRoot (''write NetworkManager configuration to '' @ crcDnsmasqConfigPath)
     crcDnsmasqConfig crcDnsmasqConfigPath 420 freshHost = (None, dnsmasqWrittenHost)"
  by (simp add: WriteToFileAsRoot_def freshHost_def dnsmasqWrittenHost_def)

lemma sample_reload:
  "Reload ''NetworkManager'' dnsmasqWrittenHost = (None, dnsmasqFixedHost)"
  by (simp add: Reload_def freshHost_def dnsmasqWrittenHost_def dnsmasqFixedHost_def)

lemma sample_write_again:
  "WriteToFileAsRoot (''write NetworkManager configuration to '' @ crcDnsmasqConfigPath)
     crcDnsmasqConfig crcDnsmasqConfigPath 420 dnsmasqFixedHost =
   (None, dnsmasqWrittenAgainHost)"
  by (simp add: WriteToFileAsRoot_def freshHost_def dnsmasqWrittenHost_def
      dnsmasqFixedHost_def dnsmasqWrittenAgainHost_def)

lemma sample_reload_again:
  "Reload ''NetworkManager'' dnsmasqWrittenAgainHost = (None, dnsmasqFixedAgainHost)"
  by (simp add: Reload_def freshHost_def dnsmasqWrittenHost_def dnsmasqFixedHost_def
      dnsmasqWrittenAgainHost_def dnsmasqFixedAgainHost_def)

lemma sample_write_reload_fails:
  "WriteToFileAsRoot (''write NetworkManager configuration to '' @ crcDnsmasqConfigPath)
     crcDnsmasqConfig crcDnsmasqConfigPath 420 reloadFailsHost =
   (None, reloadFailsWrittenHost)"
  by (simp add: WriteToFileAsRoot_def reloadFailsHost_def reloadFailsWrittenHost_def
      failingOn_def freshHost_def)

lemma sample_reload_fails:
  "Reload ''NetworkManager'' reloadFailsWrittenHost =
   (Some ''Job for NetworkManager.service failed'', reloadFailsReloadedHost)"
  by (simp add: Reload_def reloadFailsHost_def reloadFailsWrittenHost_def
      reloadFailsReloadedHost_def failingOn_def freshHost_def)

lemma sample_fix_fresh: "fixCrcDnsmasqConfigFile freshHost = (None, dnsmasqFixedHost)"
  using fix_ok [OF sample_write sample_reload] by (simp add: fix_wrappers)


lemma sample_lookpath_fixed: "exec_LookPath ''nmcli'' dnsmasqFixedHost = Inr ''/usr/bin/nmcli''"
  by (simp add: exec_LookPath_def dnsmasqFixedHost_def dnsmasqWrittenHost_def freshHost_def)

lemma sample_lookpath_missing:
  "exec_LookPath ''nmcli'' noNmcliHost = Inl ''executable file not found in $PATH''"
  by (simp add: exec_LookPath_def noNmcliHost_def)


lemma sample_remove_fixed:
  "removeCrcDnsmasqConfigFile dnsmasqFixedHost = (None, dnsmasqCleanedHost)"
proof -
  have "files dnsmasqFixedHost crcDnsmasqConfigPath = Some (crcDnsmasqConfig, 420)"
    by (simp add: dnsmasqFixedHost_def dnsmasqWrittenHost_def)
  from remove_present [OF sample_lookpath_fixed present_not_absent [OF this]]
  show ?thesis
    by (simp add: remove_wrappers RemoveFileAsRoot_def Reload_def dnsmasqFixedHost_def
        dnsmasqWrittenHost_def dnsmasqCleanedHost_def freshHost_def)
qed


lemma sample_status:
  "Status ''NetworkManager.service'' freshHost = Inr Running"
  "Status ''systemd-resolved.service'' freshHost = Inr Running"
  "Status ''systemd-networkd.service'' freshHost = Inr (OtherState ''stopped'')"
  "Status ''NetworkManager.service'' statusErrorHost =
     Inl ''Executing systemctl action failed''"
  "Status ''systemd-resolved.service'' statusErrorHost =
     Inl ''Executing systemctl action failed''"
  by (simp_all add: Status_def freshHost_def statusErrorHost_def)

section \<open>Remediation of the configuration-file checks\<close>

text \<open>
  C1. For every configuration-file check (NetworkManager configuration, dnsmasq
  configuration, dispatcher script): if the privileged write and the reload of
  NetworkManager both succeed, the fix of the check returns success, and on the host it
  leaves the check itself succeeds and the file at the path of the check holds exactly the
  expected content (with the mode that was asked for).
\<close>

theorem remediate_then_detect:
  assumes "(c, path, content, perms) \<in> set configFileChecks"
    and "WriteToFileAsRoot (''write NetworkManager configuration to '' @ path)
           content path perms h = (None, h1)"
    and "Reload ''NetworkManager'' h1 = (None, h2)"
  shows "\<exists>f. fix c = Some f \<and> f h = (None, h2) \<and> check c h2 = None \<and>
             files h2 path = Some (content, perms)"
  using configFileChecks_ops[OF assms(1)] fix_ok[OF assms(2,3)] content_after_fix[OF assms(2,3)]
  by simp

theorem remediate_then_detect_witness:
  "(dnsmasqPreflightChecks ! 1, crcDnsmasqConfigPath, crcDnsmasqConfig, 420)
     \<in> set configFileChecks \<and>
   WriteToFileAsRoot (''write NetworkManager configuration to '' @ crcDnsmasqConfigPath)
     crcDnsmasqConfig crcDnsmasqConfigPath 420 freshHost = (None, dnsmasqWrittenHost) \<and>
   Reload ''NetworkManager'' dnsmasqWrittenHost = (None, dnsmasqFixedHost) \<and>
   (\<exists>f. fix (dnsmasqPreflightChecks ! 1) = Some f \<and>
        f freshHost = (None, dnsmasqFixedHost) \<and>
        check (dnsmasqPreflightChecks ! 1) dnsmasqFixedHost = None \<and>
        files dnsmasqFixedHost crcDnsmasqConfigPath = Some (crcDnsmasqConfig, 420))"
  using remediate_then_detect [OF sample_mem sample_write sample_reload]
    sample_mem sample_write sample_reload
  by blast

text \<open>
  C2. For every configuration-file check: if the privileged write succeeds and the reload
  of NetworkManager that follows fails, the fix returns an error, and the message of that
  error ends with the message of the reload failure.
\<close>

theorem reload_failure_reported:
  assumes "(c, path, content, perms) \<in> set configFileChecks"
    and "WriteToFileAsRoot (''write NetworkManager configuration to '' @ path)
           content path perms h = (None, h1)"
    and "Reload ''NetworkManager'' h1 = (Some err, h2)"
  shows "\<exists>f. fix c = Some f \<and>
             f h = (Some (''Failed to restart NetworkManager: '' @ err), h2)"
  using configFileChecks_ops(2)[OF assms(1)] fix_reload_failed[OF assms(2,3)] by simp

theorem reload_failure_reported_witness:
  "(dnsmasqPreflightChecks ! 1, crcDnsmasqConfigPath, crcDnsmasqConfig, 420)
     \<in> set configFileChecks \<and>
   WriteToFileAsRoot (''write NetworkManager configuration to '' @ crcDnsmasqConfigPath)
     crcDnsmasqConfig crcDnsmasqConfigPath 420 reloadFailsHost =
     (None, reloadFailsWrittenHost) \<and>
   Reload ''NetworkManager'' reloadFailsWrittenHost =
     (Some ''Job for NetworkManager.service failed'', reloadFailsReloadedHost) \<and>
   (\<exists>f. fix (dnsmasqPreflightChecks ! 1) = Some f \<and>
        f reloadFailsHost =
          (Some (''Failed to restart NetworkManager: '' @
                 ''Job for NetworkManager.service failed''),
           reloadFailsReloadedHost))"
  using reload_failure_reported [OF sample_mem sample_write_reload_fails sample_reload_fails]
    sample_mem sample_write_reload_fails sample_reload_fails
  by blast

text \<open>
  C4. For every check with a fix (by \<open>fixable_checks\<close> these are the configuration-file
  checks): when the write and the reload of a first fix and of a second fix right after it
  all succeed, the first fix returns success and leaves the check passing, and the second
  fix returns success as well, again with the check passing.
\<close>

theorem remediate_twice:
  assumes "(c, path, content, perms) \<in> set configFileChecks"
    and "WriteToFileAsRoot (''write NetworkManager configuration to '' @ path)
           content path perms h = (None, h1)"
    and "Reload ''NetworkManager'' h1 = (None, h2)"
    and "WriteToFileAsRoot (''write NetworkManager configuration to '' @ path)
           content path perms h2 = (None, h3)"
    and "Reload ''NetworkManager'' h3 = (None, h4)"
  shows "\<exists>f. fix c = Some f \<and> f h = (None, h2) \<and> check c h2 = None \<and>
             f h2 = (None, h4) \<and> check c h4 = None"
  using configFileChecks_ops(1,2)[OF assms(1)]
    fix_ok[OF assms(2,3)] content_after_fix(2)[OF assms(2,3)]
    fix_ok[OF assms(4,5)] content_after_fix(2)[OF assms(4,5)]
  by simp

theorem remediate_twice_witness:
  "(dnsmasqPreflightChecks ! 1, crcDnsmasqConfigPath, crcDnsmasqConfig, 420)
     \<in> set configFileChecks \<and>
   WriteToFileAsRoot (''write NetworkManager configuration to '' @ crcDnsmasqConfigPath)
     crcDnsmasqConfig crcDnsmasqConfigPath 420 freshHost = (None, dnsmasqWrittenHost) \<and>
   Reload ''NetworkManager'' dnsmasqWrittenHost = (None, dnsmasqFixedHost) \<and>
   WriteToFileAsRoot (''write NetworkManager configuration to '' @ crcDnsmasqConfigPath)
     crcDnsmasqConfig crcDnsmasqConfigPath 420 dnsmasqFixedHost =
     (None, dnsmasqWrittenAgainHost) \<and>
   Reload ''NetworkManager'' dnsmasqWrittenAgainHost = (None, dnsmasqFixedAgainHost) \<and>
   (\<exists>f. fix (dnsmasqPreflightChecks ! 1) = Some f \<and>
        f freshHost = (None, dnsmasqFixedHost) \<and>
        check (dnsmasqPreflightChecks ! 1) dnsmasqFixedHost = None \<and>
        f dnsmasqFixedHost = (None, dnsmasqFixedAgainHost) \<and>
        check (dnsmasqPreflightChecks ! 1) dnsmasqFixedAgainHost = None)"
  using remediate_twice [OF sample_mem sample_write sample_reload
      sample_write_again sample_reload_again]
    sample_mem sample_write sample_reload sample_write_again sample_reload_again
  by blast

section \<open>The registries and the NoFix flag\<close>

text \<open>
  C3. In the three registries a check carries the flag \<open>NoFix\<close> exactly when it has no fix
  operation: every check flagged \<open>NoFix\<close> has none, and every check without the flag has one.
\<close>

theorem nofix_iff_fix_absent:
  "\<forall>c \<in> set (nmPreflightChecks @ dnsmasqPreflightChecks @ systemdResolvedPreflightChecks).
     (NoFix \<in> flags c) = (fix c = None)"
  by (simp add: nmPreflightChecks_def dnsmasqPreflightChecks_def
      systemdResolvedPreflightChecks_def)

theorem nofix_iff_fix_absent_witness:
  "nmPreflightChecks ! 1 \<in>
     set (nmPreflightChecks @ dnsmasqPreflightChecks @ systemdResolvedPreflightChecks) \<and>
   NoFix \<in> flags (nmPreflightChecks ! 1) \<and> fix (nmPreflightChecks ! 1) = None \<and>
   dnsmasqPreflightChecks ! 0 \<in>
     set (nmPreflightChecks @ dnsmasqPreflightChecks @ systemdResolvedPreflightChecks) \<and>
   NoFix \<notin> flags (dnsmasqPreflightChecks ! 0) \<and>
   fix (dnsmasqPreflightChecks ! 0) = Some fixCrcNetworkManagerConfig"
proof -
  have m1: "nmPreflightChecks ! 1 \<in>
     set (nmPreflightChecks @ dnsmasqPreflightChecks @ systemdResolvedPreflightChecks)"
    by (simp add: nmPreflightChecks_def)
  have m2: "dnsmasqPreflightChecks ! 0 \<in>
     set (nmPreflightChecks @ dnsmasqPreflightChecks @ systemdResolvedPreflightChecks)"
    by (simp add: dnsmasqPreflightChecks_def)
  have f1: "fix (nmPreflightChecks ! 1) = None"
    by (simp add: nmPreflightChecks_def)
  have f2: "fix (dnsmasqPreflightChecks ! 0) = Some fixCrcNetworkManagerConfig"
    by (simp add: dnsmasqPreflightChecks_def)
  from nofix_iff_fix_absent m1 f1 have "NoFix \<in> flags (nmPreflightChecks ! 1)" by blast
  moreover from nofix_iff_fix_absent m2 f2 have "NoFix \<notin> flags (dnsmasqPreflightChecks ! 0)"
    by auto
  ultimately show ?thesis using m1 m2 f1 f2 by blast
qed

section \<open>Cleanup of the configuration-file checks\<close>

text \<open>
  C5, as stated, fails: on a host without \<^verbatim>\<open>nmcli\<close> on the search path the fix of the
  dnsmasq check succeeds, the cleanup that follows returns success at once, and the file is
  still there with the content the fix wrote.
\<close>

theorem undo_keeps_file_without_nmcli:
  "fix (dnsmasqPreflightChecks ! 1) = Some fixCrcDnsmasqConfigFile \<and>
   cleanup (dnsmasqPreflightChecks ! 1) = Some removeCrcDnsmasqConfigFile \<and>
   fst (fixCrcDnsmasqConfigFile noNmcliHost) = None \<and>
   fst (removeCrcDnsmasqConfigFile (snd (fixCrcDnsmasqConfigFile noNmcliHost))) = None \<and>
   files (snd (removeCrcDnsmasqConfigFile (snd (fixCrcDnsmasqConfigFile noNmcliHost))))
     crcDnsmasqConfigPath = Some (crcDnsmasqConfig, 420)"
  by (simp add: dnsmasqPreflightChecks_def fixCrcDnsmasqConfigFile_def
      fixNetworkManagerConfigFile_def WriteToFileAsRoot_def Reload_def
      removeCrcDnsmasqConfigFile_def removeNetworkManagerConfigFile_def
      checkNetworkManagerInstalled_def exec_LookPath_def noNmcliHost_def freshHost_def)

text \<open>
  C5, amended. For every configuration-file check: after a successful fix, a successful
  cleanup on a host where \<^verbatim>\<open>nmcli\<close> is found on the search path leaves no file at the path
  of the check.
\<close>

theorem undo_removes_file:
  assumes "(c, path, content, perms) \<in> set configFileChecks"
    and "fix c = Some f" and "cleanup c = Some u"
    and "f h = (None, h1)"
    and "exec_LookPath ''nmcli'' h1 = Inr p"
    and "u h1 = (None, h2)"
  shows "files h2 path = None"
proof -
  from assms(1,2) have f: "f = fixNetworkManagerConfigFile path content perms"
    using configFileChecks_ops(2) by fastforce
  from assms(1,3) have u: "u = removeNetworkManagerConfigFile path"
    using configFileChecks_ops(3) by fastforce
  from assms(4) f obtain h0 where
    w: "WriteToFileAsRoot (''write NetworkManager configuration to '' @ path)
          content path perms h = (None, h0)"
    and r: "Reload ''NetworkManager'' h0 = (None, h1)"
    by (auto elim: fix_ok_cases)
  from content_after_fix(1) [OF w r] have "\<not> os_IsNotExist (os_Stat path h1)"
    by (rule present_not_absent)
  from remove_present [OF assms(5) this] assms(6) u
  obtain h3 where
    rm: "RemoveFileAsRoot (''removing NetworkManager configuration file in '' @ path)
           path h1 = (None, h3)"
    and rl: "Reload ''NetworkManager'' h3 = (None, h2)"
    by (auto split: prod.splits option.splits)
  from Remove_ok(1) [OF rm] Reload_result(1) [OF rl] show ?thesis by simp
qed

theorem undo_removes_file_witness:
  "(dnsmasqPreflightChecks ! 1, crcDnsmasqConfigPath, crcDnsmasqConfig, 420)
     \<in> set configFileChecks \<and>
   fix (dnsmasqPreflightChecks ! 1) = Some fixCrcDnsmasqConfigFile \<and>
   cleanup (dnsmasqPreflightChecks ! 1) = Some removeCrcDnsmasqConfigFile \<and>
   fixCrcDnsmasqConfigFile freshHost = (None, dnsmasqFixedHost) \<and>
   exec_LookPath ''nmcli'' dnsmasqFixedHost = Inr ''/usr/bin/nmcli'' \<and>
   removeCrcDnsmasqConfigFile dnsmasqFixedHost = (None, dnsmasqCleanedHost) \<and>
   files dnsmasqCleanedHost crcDnsmasqConfigPath = None"
  using undo_removes_file [OF sample_mem sample_ops(1,2) sample_fix_fresh
      sample_lookpath_fixed sample_remove_fixed]
    sample_mem sample_ops(1,2) sample_fix_fresh sample_lookpath_fixed sample_remove_fixed
  by blast

text \<open>
  C6. For the cleanup of every configuration-file check: when \<^verbatim>\<open>nmcli\<close> cannot be resolved
  on the search path, the cleanup returns success and hands back the host as it was; in
  particular no privileged call (removal or reload) has been issued.
\<close>

theorem undo_skipped_when_not_installed:
  assumes "(c, path, content, perms) \<in> set configFileChecks"
    and "exec_LookPath ''nmcli'' h = Inl err"
  shows "\<exists>u. cleanup c = Some u \<and> u h = (None, h) \<and> calls (snd (u h)) = calls h"
  using configFileChecks_ops(3)[OF assms(1)] remove_not_installed[OF assms(2)] by simp

theorem undo_skipped_when_not_installed_witness:
  "(dnsmasqPreflightChecks ! 1, crcDnsmasqConfigPath, crcDnsmasqConfig, 420)
     \<in> set configFileChecks \<and>
   exec_LookPath ''nmcli'' noNmcliHost = Inl ''executable file not found in $PATH'' \<and>
   (\<exists>u. cleanup (dnsmasqPreflightChecks ! 1) = Some u \<and> u noNmcliHost = (None, noNmcliHost) \<and>
        calls (snd (u noNmcliHost)) = calls noNmcliHost)"
  using undo_skipped_when_not_installed [OF sample_mem sample_lookpath_missing]
    sample_mem sample_lookpath_missing
  by blast







section \<open>The service-state checks\<close>

text \<open>
  C8. The service-state checks of the registries are \<open>checkSystemdNetworkdIsNotRunning\<close>,
  \<open>checkNetworkManagerIsRunning\<close> and \<open>checkSystemdResolvedIsRunning\<close>. The two
  is-running checks succeed exactly when the status query reports \<open>Running\<close>, and the
  is-not-running check succeeds exactly when the status query does not report \<open>Running\<close>.
\<close>

theorem service_state_checks:
  "map check [nmPreflightChecks ! 0, nmPreflightChecks ! 2, systemdResolvedPreflightChecks ! 0] =
     [checkSystemdNetworkdIsNotRunning, checkNetworkManagerIsRunning,
      checkSystemdResolvedIsRunning] \<and>
   (checkNetworkManagerIsRunning h = None) =
     (Status ''NetworkManager.service'' h = Inr Running) \<and>
   (checkSystemdResolvedIsRunning h = None) =
     (Status ''systemd-resolved.service'' h = Inr Running) \<and>
   (checkSystemdNetworkdIsNotRunning h = None) =
     (Status ''systemd-networkd.service'' h \<noteq> Inr Running)"
  by (simp add: nmPreflightChecks_def systemdResolvedPreflightChecks_def
      checkNetworkManagerIsRunning_def checkSystemdResolvedIsRunning_def
      checkSystemdNetworkdIsNotRunning_def service_running_iff)

theorem service_state_checks_witness:
  "Status ''NetworkManager.service'' freshHost = Inr Running \<and>
   checkNetworkManagerIsRunning freshHost = None \<and>
   Status ''systemd-resolved.service'' freshHost = Inr Running \<and>
   checkSystemdResolvedIsRunning freshHost = None \<and>
   Status ''systemd-networkd.service'' freshHost = Inr (OtherState ''stopped'') \<and>
   checkSystemdNetworkdIsNotRunning freshHost = None"
  using service_state_checks [of freshHost] sample_status(1,2,3) by simp

section \<open>Propagation of errors\<close>

text \<open>
  C9, as stated, fails: when the status query for systemd-networkd itself fails, the check
  \<open>checkSystemdNetworkdIsNotRunning\<close> (the first one of \<open>nmPreflightChecks\<close>) returns
  success, and this is not the cleanup whose precondition is absent.
\<close>

theorem status_error_swallowed:
  "Status ''systemd-networkd.service'' statusErrorHost =
     Inl ''Executing systemctl action failed'' \<and>
   check (nmPreflightChecks ! 0) statusErrorHost = None \<and>
   checkSystemdNetworkdIsNotRunning statusErrorHost = None"
  by (simp add: nmPreflightChecks_def checkSystemdNetworkdIsNotRunning_def
      checkSystemdServiceRunning_def Status_def statusErrorHost_def)

text \<open>
  C9, amended. Two operations turn a failure of a collaborator into success: the cleanup
  when the lookup of \<^verbatim>\<open>nmcli\<close> fails, and \<open>checkSystemdNetworkdIsNotRunning\<close> when the status
  query fails. Everywhere else an error of the status query, the path lookup, the content
  comparison, the write, the removal or the reload makes the calling operation return an
  error: the two is-running checks, \<open>checkNetworkManagerInstalled\<close>, and the check, the fix
  and the cleanup of every configuration-file check.
\<close>

theorem errors_propagate:
  assumes "(c, path, content, perms) \<in> set configFileChecks"
  shows "\<exists>f u. fix c = Some f \<and> cleanup c = Some u \<and>
    (\<forall>err. Status ''NetworkManager.service'' h = Inl err \<longrightarrow>
       checkNetworkManagerIsRunning h = Some err) \<and>
    (\<forall>err. Status ''systemd-resolved.service'' h = Inl err \<longrightarrow>
       checkSystemdResolvedIsRunning h = Some err) \<and>
    (\<forall>err. exec_LookPath ''nmcli'' h = Inl err \<longrightarrow>
       checkNetworkManagerInstalled h = Some ''NetworkManager cli nmcli was not found in path'') \<and>
    (\<forall>err. FileContentMatches path content h = Some err \<longrightarrow> check c h = Some err) \<and>
    (\<forall>err h1. WriteToFileAsRoot (''write NetworkManager configuration to '' @ path)
                 content path perms h = (Some err, h1) \<longrightarrow>
       f h = (Some (''Failed to write config file: '' @ path @ '': '' @ err), h1)) \<and>
    (\<forall>err h1 h2. WriteToFileAsRoot (''write NetworkManager configuration to '' @ path)
                 content path perms h = (None, h1) \<and>
               Reload ''NetworkManager'' h1 = (Some err, h2) \<longrightarrow>
       f h = (Some (''Failed to restart NetworkManager: '' @ err), h2)) \<and>
    (\<forall>p err h1. exec_LookPath ''nmcli'' h = Inr p \<and> \<not> os_IsNotExist (os_Stat path h) \<and>
               RemoveFileAsRoot (''removing NetworkManager configuration file in '' @ path)
                 path h = (Some err, h1) \<longrightarrow>
       u h = (Some (''Failed to remove NetworkManager configuration file: '' @ path @
                    '': '' @ err), h1)) \<and>
    (\<forall>p err h1 h2. exec_LookPath ''nmcli'' h = Inr p \<and> \<not> os_IsNotExist (os_Stat path h) \<and>
               RemoveFileAsRoot (''removing NetworkManager configuration file in '' @ path)
                 path h = (None, h1) \<and>
               Reload ''NetworkManager'' h1 = (Some err, h2) \<longrightarrow>
       u h = (Some (''Failed to restart NetworkManager: '' @ err), h2))"
proof -
  have 1: "\<forall>err. Status ''NetworkManager.service'' h = Inl err \<longrightarrow>
       checkNetworkManagerIsRunning h = Some err"
    by (simp add: checkNetworkManagerIsRunning_def checkSystemdServiceRunning_def)
  have 2: "\<forall>err. Status ''systemd-resolved.service'' h = Inl err \<longrightarrow>
       checkSystemdResolvedIsRunning h = Some err"
    by (simp add: checkSystemdResolvedIsRunning_def checkSystemdServiceRunning_def)
  have 3: "\<forall>err. exec_LookPath ''nmcli'' h = Inl err \<longrightarrow>
       checkNetworkManagerInstalled h = Some ''NetworkManager cli nmcli was not found in path''"
    by (simp add: checkNetworkManagerInstalled_def)
  have 4: "\<forall>err. FileContentMatches path content h = Some err \<longrightarrow> check c h = Some err"
    by (simp add: configFileChecks_ops(1)[OF assms])
  have 5: "\<forall>err h1. WriteToFileAsRoot (''write NetworkManager configuration to '' @ path)
                 content path perms h = (Some err, h1) \<longrightarrow>
       fixNetworkManagerConfigFile path content perms h =
         (Some (''Failed to write config file: '' @ path @ '': '' @ err), h1)"
    by (simp add: fix_write_failed)
  have 6: "\<forall>err h1 h2. WriteToFileAsRoot (''write NetworkManager configuration to '' @ path)
                 content path perms h = (None, h1) \<and>
               Reload ''NetworkManager'' h1 = (Some err, h2) \<longrightarrow>
       fixNetworkManagerConfigFile path content perms h =
         (Some (''Failed to restart NetworkManager: '' @ err), h2)"
    by (simp add: fix_reload_failed)
  have 7: "\<forall>p err h1. exec_LookPath ''nmcli'' h = Inr p \<and> \<not> os_IsNotExist (os_Stat path h) \<and>
               RemoveFileAsRoot (''removing NetworkManager configuration file in '' @ path)
                 path h = (Some err, h1) \<longrightarrow>
       removeNetworkManagerConfigFile path h =
         (Some (''Failed to remove NetworkManager configuration file: '' @ path @
                    '': '' @ err), h1)"
    by (simp add: remove_present)
  have 8: "\<forall>p err h1 h2. exec_LookPath ''nmcli'' h = Inr p \<and>
               \<not> os_IsNotExist (os_Stat path h) \<and>
               RemoveFileAsRoot (''removing NetworkManager configuration file in '' @ path)
                 path h = (None, h1) \<and>
               Reload ''NetworkManager'' h1 = (Some err, h2) \<longrightarrow>
       removeNetworkManagerConfigFile path h =
         (Some (''Failed to restart NetworkManager: '' @ err), h2)"
    by (simp add: remove_present)
  from configFileChecks_ops(2,3)[OF assms] 1 2 3 4 5 6 7 8 show ?thesis by simp
qed

theorem errors_propagate_witness:
  "checkNetworkManagerIsRunning statusErrorHost = Some ''Executing systemctl action failed'' \<and>
   checkSystemdResolvedIsRunning statusErrorHost = Some ''Executing systemctl action failed'' \<and>
   checkNetworkManagerInstalled noNmcliHost =
     Some ''NetworkManager cli nmcli was not found in path'' \<and>
   checkCrcDnsmasqConfigFile freshHost = Some (''File not found: '' @ crcDnsmasqConfigPath) \<and>
   fst (fixCrcDnsmasqConfigFile
          (failingOn (WriteFile crcDnsmasqConfigPath crcDnsmasqConfig 420) ''sudo failed''
             freshHost)) =
     Some (''Failed to write config file: '' @ crcDnsmasqConfigPath @ '': sudo failed'') \<and>
   fst (fixCrcDnsmasqConfigFile
          (failingOn (ReloadUnit ''NetworkManager'') ''reload failed'' freshHost)) =
     Some ''Failed to restart NetworkManager: reload failed'' \<and>
   fst (removeCrcDnsmasqConfigFile
          (failingOn (RemoveFile crcDnsmasqConfigPath) ''sudo failed'' dnsmasqFixedHost)) =
     Some (''Failed to remove NetworkManager configuration file: '' @ crcDnsmasqConfigPath @
           '': sudo failed'') \<and>
   fst (removeCrcDnsmasqConfigFile
          (failingOn (ReloadUnit ''NetworkManager'') ''reload failed'' dnsmasqFixedHost)) =
     Some ''Failed to restart NetworkManager: reload failed''"
proof -
  let ?wr = "WriteToFileAsRoot
    (''write NetworkManager configuration to '' @ crcDnsmasqConfigPath)
    crcDnsmasqConfig crcDnsmasqConfigPath 420"
  let ?rm = "RemoveFileAsRoot
    (''removing NetworkManager configuration file in '' @ crcDnsmasqConfigPath)
    crcDnsmasqConfigPath"
  let ?hw = "failingOn (WriteFile crcDnsmasqConfigPath crcDnsmasqConfig 420) ''sudo failed''
               freshHost"
  let ?hr = "failingOn (ReloadUnit ''NetworkManager'') ''reload failed'' freshHost"
  let ?hd = "failingOn (RemoveFile crcDnsmasqConfigPath) ''sudo failed'' dnsmasqFixedHost"
  let ?he = "failingOn (ReloadUnit ''NetworkManager'') ''reload failed'' dnsmasqFixedHost"
  note hosts = failingOn_def freshHost_def dnsmasqWrittenHost_def dnsmasqFixedHost_def
  note a = sample_status(4) and b = sample_status(5) and c = sample_lookpath_missing
  have d: "FileContentMatches crcDnsmasqConfigPath crcDnsmasqConfig freshHost =
             Some (''File not found: '' @ crcDnsmasqConfigPath)"
    by (simp add: FileContentMatches_def freshHost_def)
  have e: "?wr ?hw = (Some ''sudo failed'', snd (?wr ?hw))"
    by (simp add: WriteToFileAsRoot_def hosts)
  have f1: "?wr ?hr = (None, snd (?wr ?hr))"
    by (simp add: WriteToFileAsRoot_def hosts)
  have f2: "Reload ''NetworkManager'' (snd (?wr ?hr)) =
              (Some ''reload failed'', snd (Reload ''NetworkManager'' (snd (?wr ?hr))))"
    by (simp add: WriteToFileAsRoot_def Reload_def hosts)
  have g1: "exec_LookPath ''nmcli'' ?hd = Inr ''/usr/bin/nmcli''"
    and g2: "\<not> os_IsNotExist (os_Stat crcDnsmasqConfigPath ?hd)"
    and g3: "?rm ?hd = (Some ''sudo failed'', snd (?rm ?hd))"
    by (simp_all add: exec_LookPath_def os_Stat_def RemoveFileAsRoot_def hosts)
  have i1: "exec_LookPath ''nmcli'' ?he = Inr ''/usr/bin/nmcli''"
    and i2: "\<not> os_IsNotExist (os_Stat crcDnsmasqConfigPath ?he)"
    and i3: "?rm ?he = (None, snd (?rm ?he))"
    and i4: "Reload ''NetworkManager'' (snd (?rm ?he)) =
               (Some ''reload failed'', snd (Reload ''NetworkManager'' (snd (?rm ?he))))"
    by (simp_all add: exec_LookPath_def os_Stat_def RemoveFileAsRoot_def Reload_def hosts)
  from errors_propagate [OF sample_mem, of statusErrorHost] a b
  have 1: "checkNetworkManagerIsRunning statusErrorHost =
             Some ''Executing systemctl action failed''"
    and 2: "checkSystemdResolvedIsRunning statusErrorHost =
             Some ''Executing systemctl action failed''"
    by blast+
  from errors_propagate [OF sample_mem, of noNmcliHost] c
  have 3: "checkNetworkManagerInstalled noNmcliHost =
             Some ''NetworkManager cli nmcli was not found in path''"
    by blast
  from errors_propagate [OF sample_mem, of freshHost] d
  have 4: "checkCrcDnsmasqConfigFile freshHost =
             Some (''File not found: '' @ crcDnsmasqConfigPath)"
    unfolding sample_ops(3) [symmetric] by blast
  from errors_propagate [OF sample_mem, of ?hw] e
  have 5: "fst (fixCrcDnsmasqConfigFile ?hw) =
     Some (''Failed to write config file: '' @ crcDnsmasqConfigPath @ '': sudo failed'')"
    by (auto simp: sample_ops simp del: One_nat_def)
  from errors_propagate [OF sample_mem, of ?hr] f1 f2
  have 6: "fst (fixCrcDnsmasqConfigFile ?hr) =
     Some ''Failed to restart NetworkManager: reload failed''"
    by (auto simp: sample_ops simp del: One_nat_def)
  from errors_propagate [OF sample_mem, of ?hd] g1 g2 g3
  have 7: "fst (removeCrcDnsmasqConfigFile ?hd) =
     Some (''Failed to remove NetworkManager configuration file: '' @ crcDnsmasqConfigPath @
           '': sudo failed'')"
    by (auto simp: sample_ops simp del: One_nat_def)
  from errors_propagate [OF sample_mem, of ?he] i1 i2 i3 i4
  have 8: "fst (removeCrcDnsmasqConfigFile ?he) =
     Some ''Failed to restart NetworkManager: reload failed''"
    by (auto simp: sample_ops simp del: One_nat_def)
  from 1 2 3 4 5 6 7 8 show ?thesis by blast
qed

end
